theory Spec2Isabelle
  imports Complex_Main
begin

section \<open>Connection manager (app.py)\<close>

text \<open>
  The RPC endpoints are outside the program. What an endpoint answers to the calls of
  one connection attempt is a record of replies; a reply is a returned value or a raised
  exception. The world gives, for every tick of a logical clock and every endpoint URL,
  the replies the endpoint would give at that moment, so an endpoint may fail at one
  attempt and answer at the next. Every attempt and every probe of a cached provider
  reads the world at the current tick and advances the clock.
\<close>

datatype 'a reply = Returns 'a | Raises string

record endpoint =
  is_connected :: "bool reply"
  get_block_latest :: "nat option reply"
  chain_id :: "int reply"
  still_connected :: "bool reply"
  block_number :: "nat reply"
  syncing :: "bool reply"

type_synonym world = "nat \<Rightarrow> string \<Rightarrow> endpoint"

record network_config =
  rpc_urls :: "string list"
  explorer_url :: string
  currency_symbol :: string
  timeout :: nat
  retry_count :: nat

definition NETWORK_CONFIGS :: "int \<rightharpoonup> network_config" where
  "NETWORK_CONFIGS = map_of
    [(1, \<lparr>rpc_urls = [''https://eth.drpc.org'', ''https://ethereum.publicnode.com'',
                       ''https://cloudflare-eth.com'', ''https://eth-mainnet.public.blastapi.io''],
          explorer_url = ''https://etherscan.io'', currency_symbol = ''ETH'',
          timeout = 10, retry_count = 3\<rparr>),
     (5, \<lparr>rpc_urls = [''https://goerli.infura.io/v3/YOUR-PROJECT-ID'',
                       ''https://ethereum-goerli.publicnode.com'',
                       ''https://goerli.gateway.tenderly.co''],
          explorer_url = ''https://goerli.etherscan.io'', currency_symbol = ''gETH'',
          timeout = 10, retry_count = 3\<rparr>),
     (56, \<lparr>rpc_urls = [''https://bsc-dataseed.binance.org'', ''https://bsc-dataseed1.defibit.io'',
                        ''https://bsc-dataseed1.ninicoin.io'', ''https://bsc.publicnode.com''],
           explorer_url = ''https://bscscan.com'', currency_symbol = ''BNB'',
           timeout = 10, retry_count = 3\<rparr>),
     (97, \<lparr>rpc_urls = [''https://data-seed-prebsc-1-s1.binance.org:8545'',
                        ''https://data-seed-prebsc-2-s1.binance.org:8545'',
                        ''https://bsc-testnet.publicnode.com''],
           explorer_url = ''https://testnet.bscscan.com'', currency_symbol = ''tBNB'',
           timeout = 10, retry_count = 3\<rparr>),
     (137, \<lparr>rpc_urls = [''https://polygon-rpc.com'', ''https://polygon.drpc.org'',
                         ''https://polygon-bor.publicnode.com'',
                         ''https://polygon.gateway.tenderly.co''],
            explorer_url = ''https://polygonscan.com'', currency_symbol = ''MATIC'',
            timeout = 10, retry_count = 3\<rparr>),
     (80001, \<lparr>rpc_urls = [''https://rpc-mumbai.maticvigil.com'',
                           ''https://polygon-mumbai.gateway.tenderly.co'',
                           ''https://polygon-mumbai.blockpi.network/v1/rpc/public''],
              explorer_url = ''https://mumbai.polygonscan.com'', currency_symbol = ''tMATIC'',
              timeout = 10, retry_count = 3\<rparr>)]"

text \<open>
  The exceptions of one connection attempt (lines 128-177 of app.py). The inner
  \<open>try\<close> of the health check wraps whatever it catches into
  \<open>ConnectionError("Health check failed: ...")\<close>.
\<close>

datatype health_cause =
    No_latest_block
  | Chain_ID_mismatch int int
  | Health_raised string

datatype attempt_failure =
    Basic_connection_test_failed
  | Health_check_failed health_cause
  | Provider_not_connected
  | Node_still_syncing
  | Call_raised string

datatype jval = Str string | Num real

text \<open>
  The exceptions that leave a function of the program: \<open>ValueError\<close> for an
  unsupported network id, \<open>ConnectionError\<close> with the last failure observed when
  every endpoint is exhausted, \<open>KeyError\<close> with the missing key for a failed
  dictionary lookup.
\<close>

datatype exn =
    ValueError int
  | ConnectionError int "attempt_failure option"
  | KeyError jval

text \<open>
  A provider is a \<open>Web3\<close> object bound to one endpoint URL. Its chain id is not a
  field: \<open>provider.eth.chain_id\<close> asks the endpoint.
\<close>

record handle =
  url :: string

datatype event = Probe string | Attempt string nat | Sleep nat | Query string

text \<open>
  The state of the connection manager: the module-level dictionary
  \<open>web3_providers\<close>, the clock of the world, and the trace of what the program did to
  the network (\<open>Probe\<close>: liveness call on a cached provider; \<open>Attempt u a\<close>:
  attempt number \<open>a\<close> on endpoint \<open>u\<close>; \<open>Sleep n\<close>: \<open>time.sleep(n)\<close>;
  \<open>Query\<close>: a chain-id call on a provider already returned).
\<close>

record conn_state =
  web3_providers :: "int \<rightharpoonup> handle"
  clock :: nat
  calls :: "event list"

definition initial_state :: conn_state where
  "initial_state = \<lparr>web3_providers = Map.empty, clock = 0, calls = []\<rparr>"

definition health_check :: "int \<Rightarrow> endpoint \<Rightarrow> health_cause + unit" where
  "health_check network_id e =
     (case get_block_latest e of
        Raises m \<Rightarrow> Inl (Health_raised m)
      | Returns None \<Rightarrow> Inl No_latest_block
      | Returns (Some latest_block) \<Rightarrow>
          (case chain_id e of
             Raises m \<Rightarrow> Inl (Health_raised m)
           | Returns c \<Rightarrow>
               if c \<noteq> network_id then Inl (Chain_ID_mismatch network_id c) else Inr ()))"

text \<open>
  The sync check of lines 165-170: the \<open>ConnectionError("Node is still syncing")\<close>
  is raised inside a \<open>try\<close> whose handler is \<open>except Exception: pass\<close>, so neither
  it nor an exception of the call itself leaves the block.
\<close>

definition sync_check :: "endpoint \<Rightarrow> attempt_failure + unit" where
  "sync_check e =
     (case (case syncing e of
              Raises m \<Rightarrow> Inl (Call_raised m)
            | Returns b \<Rightarrow> if b then Inl Node_still_syncing else Inr ())
      of Inl _ \<Rightarrow> Inr () | Inr u \<Rightarrow> Inr u)"

text \<open>
  \<open>add_network_middlewares\<close>, lines 106-113. It asks nothing of the endpoint. The
  \<open>inject\<close> of web3's middleware onion takes an element only with an integer layer:
  the calls with \<open>layer=0\<close> (chains 1 and 5, and the first call for chains 137 and
  80001) return, and the calls without a layer (line 110 for chains 56 and 97, line 113
  for chains 137 and 80001) raise \<open>TypeError\<close>, inside the \<open>try\<close> of the attempt.
\<close>

definition add_network_middlewares :: "int \<Rightarrow> attempt_failure + unit" where
  "add_network_middlewares network_id =
     (if network_id = 1 \<or> network_id = 5 then Inr ()
      else if network_id = 56 \<or> network_id = 97
        then Inl (Call_raised ''TypeError: The layer for insertion must be an int.'')
      else if network_id = 137 \<or> network_id = 80001
        then Inl (Call_raised ''TypeError: The layer for insertion must be an int.'')
      else Inr ())"

text \<open>
  One attempt, lines 139-173, in the order of the source: the basic connection test, the
  health check, the second connection test, the block-number call, the sync check and
  the injection of the network's middlewares.
\<close>

definition connect_attempt :: "int \<Rightarrow> endpoint \<Rightarrow> attempt_failure + unit" where
  "connect_attempt network_id e =
     (case is_connected e of
        Raises m \<Rightarrow> Inl (Call_raised m)
      | Returns False \<Rightarrow> Inl Basic_connection_test_failed
      | Returns True \<Rightarrow>
          (case health_check network_id e of
             Inl c \<Rightarrow> Inl (Health_check_failed c)
           | Inr _ \<Rightarrow>
               (case still_connected e of
                  Raises m \<Rightarrow> Inl (Call_raised m)
                | Returns False \<Rightarrow> Inl Provider_not_connected
                | Returns True \<Rightarrow>
                    (case block_number e of
                       Raises m \<Rightarrow> Inl (Call_raised m)
                     | Returns _ \<Rightarrow>
                         (case sync_check e of
                            Inl f \<Rightarrow> Inl f
                          | Inr _ \<Rightarrow> add_network_middlewares network_id)))))"

text \<open>
  The inner loop \<open>for attempt in range(retry_count)\<close> on one endpoint. A successful
  attempt stores the provider under \<open>network_id\<close> and returns; a failed one records
  the exception in \<open>last_error\<close>, sleeps \<open>attempt + 1\<close> seconds unless it was the
  last attempt, and continues with the next attempt.
\<close>

fun try_attempts ::
  "world \<Rightarrow> int \<Rightarrow> string \<Rightarrow> nat \<Rightarrow> nat list \<Rightarrow> attempt_failure option \<Rightarrow> conn_state
     \<Rightarrow> handle option \<times> attempt_failure option \<times> conn_state" where
  "try_attempts w network_id rpc_url rc [] last_error s = (None, last_error, s)"
| "try_attempts w network_id rpc_url rc (attempt # rest) last_error s =
     (let e = w (clock s) rpc_url;
          s1 = s\<lparr>clock := clock s + 1, calls := calls s @ [Attempt rpc_url attempt]\<rparr>
      in case connect_attempt network_id e of
           Inr _ \<Rightarrow>
             (Some \<lparr>url = rpc_url\<rparr>, last_error,
              s1\<lparr>web3_providers := (web3_providers s1)(network_id \<mapsto> \<lparr>url = rpc_url\<rparr>)\<rparr>)
         | Inl err \<Rightarrow>
             try_attempts w network_id rpc_url rc rest (Some err)
               (if attempt < rc - 1 then s1\<lparr>calls := calls s1 @ [Sleep (attempt + 1)]\<rparr> else s1))"

text \<open>The outer loop \<open>for rpc_url in config['rpc_urls']\<close>.\<close>

fun try_endpoints ::
  "world \<Rightarrow> int \<Rightarrow> nat \<Rightarrow> string list \<Rightarrow> attempt_failure option \<Rightarrow> conn_state
     \<Rightarrow> handle option \<times> attempt_failure option \<times> conn_state" where
  "try_endpoints w network_id rc [] last_error s = (None, last_error, s)"
| "try_endpoints w network_id rc (rpc_url # rest) last_error s =
     (case try_attempts w network_id rpc_url rc [0..<rc] last_error s of
        (Some provider, last_error', s') \<Rightarrow> (Some provider, last_error', s')
      | (None, last_error', s') \<Rightarrow> try_endpoints w network_id rc rest last_error' s')"

text \<open>
  Lines 115-122: the cached provider is returned when its liveness call answers true;
  it is deleted from the cache only when the call raises; when the call answers false
  it stays in the cache and the function falls through to the endpoint loop.
\<close>

definition cached_provider ::
  "world \<Rightarrow> int \<Rightarrow> bool \<Rightarrow> conn_state \<Rightarrow> handle option \<times> conn_state" where
  "cached_provider w network_id force_new s =
     (if force_new then (None, s)
      else case web3_providers s network_id of
        None \<Rightarrow> (None, s)
      | Some provider \<Rightarrow>
          (let e = w (clock s) (url provider);
               s1 = s\<lparr>clock := clock s + 1, calls := calls s @ [Probe (url provider)]\<rparr>
           in case is_connected e of
                Returns True \<Rightarrow> (Some provider, s1)
              | Returns False \<Rightarrow> (None, s1)
              | Raises m \<Rightarrow> (None, s1\<lparr>web3_providers := (web3_providers s1)(network_id := None)\<rparr>)))"

text \<open>
  \<open>get_web3_provider\<close> returns \<open>(provider, True)\<close> or raises; \<open>Inr provider\<close> is
  the first, \<open>Inl\<close> the second. It has no path that returns \<open>False\<close>.
\<close>

definition get_web3_provider ::
  "world \<Rightarrow> int \<Rightarrow> bool \<Rightarrow> conn_state \<Rightarrow> (exn + handle) \<times> conn_state" where
  "get_web3_provider w network_id force_new s =
     (case NETWORK_CONFIGS network_id of
        None \<Rightarrow> (Inl (ValueError network_id), s)
      | Some config \<Rightarrow>
          (case cached_provider w network_id force_new s of
             (Some provider, s1) \<Rightarrow> (Inr provider, s1)
           | (None, s1) \<Rightarrow>
               (case try_endpoints w network_id (retry_count config) (rpc_urls config) None s1 of
                  (Some provider, _, s2) \<Rightarrow> (Inr provider, s2)
                | (None, last_error, s2) \<Rightarrow> (Inl (ConnectionError network_id last_error), s2))))"

text \<open>
  The states the cache can be in: the empty cache of module load, and every state
  left by a call of \<open>get_web3_provider\<close>, the only code that writes
  \<open>web3_providers\<close>.
\<close>

inductive reachable :: "world \<Rightarrow> conn_state \<Rightarrow> bool" for w :: world where
  reachable_initial: "reachable w initial_state"
| reachable_call:
    "reachable w s \<Longrightarrow> get_web3_provider w network_id force_new s = (r, s') \<Longrightarrow> reachable w s'"

section \<open>Risk scoring pipeline (security_scanner.py, ai-analyzer.py)\<close>

subsection \<open>Strings and the two regular expressions\<close>

fun starts_with :: "string \<Rightarrow> string \<Rightarrow> bool" where
  "starts_with [] s = True"
| "starts_with (p # ps) [] = False"
| "starts_with (p # ps) (c # cs) = (p = c \<and> starts_with ps cs)"

text \<open>Python's \<open>needle in haystack\<close> on strings: a contiguous occurrence.\<close>

fun str_contains :: "string \<Rightarrow> string \<Rightarrow> bool" where
  "str_contains needle [] = starts_with needle []"
| "str_contains needle (c # cs) = (starts_with needle (c # cs) \<or> str_contains needle cs)"

definition newline :: char where
  "newline = CHR 0x0A"

text \<open>
  Both patterns of the source are literals separated by \<open>.*\<close>, and \<open>.\<close> matches
  every character but the newline. \<open>dot_star_then lits s\<close> matches
  \<open>.*l\<^sub>1.*l\<^sub>2...\<close> anchored at the start of \<open>s\<close>; \<open>re_search\<close> is
  \<open>re.search\<close> for the pattern \<open>l\<^sub>0.*l\<^sub>1.*l\<^sub>2...\<close>: a match starting anywhere.
\<close>

fun dot_star_then :: "string list \<Rightarrow> string \<Rightarrow> bool" where
  "dot_star_then [] s = True"
| "dot_star_then (l # ls) [] = (starts_with l [] \<and> dot_star_then ls [])"
| "dot_star_then (l # ls) (c # cs) =
     ((starts_with l (c # cs) \<and> dot_star_then ls (drop (length l) (c # cs)))
      \<or> (c \<noteq> newline \<and> dot_star_then (l # ls) cs))"

definition match_at :: "string list \<Rightarrow> string \<Rightarrow> bool" where
  "match_at lits s =
     (case lits of [] \<Rightarrow> True
      | l # ls \<Rightarrow> starts_with l s \<and> dot_star_then ls (drop (length l) s))"

fun re_search :: "string list \<Rightarrow> string \<Rightarrow> bool" where
  "re_search lits [] = match_at lits []"
| "re_search lits (c # cs) = (match_at lits (c # cs) \<or> re_search lits cs)"

definition dquote :: char where
  "dquote = CHR 0x22"

text \<open>The pattern \<^verbatim>\<open>\.call\{.*\}\(".*"\)\<close>.\<close>

definition low_level_call_pattern :: "string list" where
  "low_level_call_pattern = [''.call{'', ''}('' @ [dquote], [dquote] @ '')'']"

text \<open>The pattern \<^verbatim>\<open>require\(.*\.call\<close>.\<close>

definition require_call_pattern :: "string list" where
  "require_call_pattern = [''require('', ''.call'']"

subsection \<open>Findings and the local checks\<close>

text \<open>
  A finding is a dictionary; an association list with distinct keys stands for it, read
  with \<open>map_of\<close>. The local findings carry the keys \<open>type\<close>, \<open>severity\<close> and
  \<open>description\<close>; those of the inference service carry whatever keys it sent.
\<close>

type_synonym finding = "(string \<times> jval) list"

definition new_finding :: "string \<Rightarrow> jval \<Rightarrow> string \<Rightarrow> finding" where
  "new_finding ty sev descr = [(''type'', Str ty), (''severity'', sev), (''description'', Str descr)]"

text \<open>
  Lines 84-123 of security_scanner.py: the four checks, in the order of the source, each
  appending its finding and adding its increment to \<open>risk_score\<close>, which starts at 0.
  Python floats are taken as real numbers.
\<close>

definition static_checks :: "string \<Rightarrow> finding list \<times> real" where
  "static_checks source_code =
     (let (v1, r1) =
            (if str_contains ''call.value'' source_code
                \<and> \<not> str_contains ''ReentrancyGuard'' source_code
             then ([new_finding ''reentrancy'' (Str ''high'')
                      ''Potential reentrancy vulnerability detected''], 0 + 0.4)
             else ([], 0));
          (v2, r2) =
            (if re_search low_level_call_pattern source_code
             then (if \<not> re_search require_call_pattern source_code
                   then (v1 @ [new_finding ''unchecked_return'' (Str ''medium'')
                                 ''Unchecked return value from low-level call''], r1 + 0.3)
                   else (v1, r1))
             else (v1, r1));
          (v3, r3) =
            (if \<not> str_contains ''SafeMath'' source_code
             then (v2 @ [new_finding ''integer_overflow'' (Str ''medium'')
                           ''No SafeMath usage detected''], r2 + 0.2)
             else (v2, r2));
          (v4, r4) =
            (if str_contains ''tx.origin'' source_code
             then (v3 @ [new_finding ''tx_origin'' (Str ''high'')
                           ''Dangerous tx.origin usage detected''], r3 + 0.4)
             else (v3, r3))
      in (v4, r4))"

text \<open>
  \<open>generate_recommendations\<close> reads \<open>vuln["type"]\<close> of every finding of the list it
  is given; a finding without that key raises \<open>KeyError\<close>.
\<close>

definition recommendation_for :: "jval \<Rightarrow> string list" where
  "recommendation_for ty =
     (if ty = Str ''reentrancy''
        then [''Implement ReentrancyGuard or checks-effects-interactions pattern'']
      else if ty = Str ''unchecked_return''
        then [''Add require() statements to check return values'']
      else if ty = Str ''integer_overflow''
        then [''Use SafeMath library for arithmetic operations'']
      else if ty = Str ''tx_origin''
        then [''Replace tx.origin with msg.sender'']
      else [])"

fun recommendations_loop :: "string list \<Rightarrow> finding list \<Rightarrow> exn + string list" where
  "recommendations_loop recommendations [] = Inr recommendations"
| "recommendations_loop recommendations (vuln # rest) =
     (case map_of vuln ''type'' of
        None \<Rightarrow> Inl (KeyError (Str ''type''))
      | Some ty \<Rightarrow> recommendations_loop (recommendations @ recommendation_for ty) rest)"

definition generate_recommendations :: "finding list \<Rightarrow> exn + string list" where
  "generate_recommendations vulnerabilities = recommendations_loop [] vulnerabilities"

subsection \<open>The inference calls\<close>

text \<open>
  The parsed JSON object of the inference service, with the three keys the callers read;
  \<open>None\<close> is an absent key. The vulnerabilities are taken to be a list of
  dictionaries and the score a number, the shapes the callers compute with.
\<close>

record analysis =
  ai_error :: "string option"
  ai_vulnerabilities :: "finding list option"
  ai_risk_score :: "real option"

text \<open>
  The body of \<open>analyze_smart_contract\<close> is one \<open>try\<close>: its argument here is the
  outcome of the request and of \<open>json.loads\<close>, the parsed object or the exception.
\<close>

definition analyze_smart_contract :: "analysis reply \<Rightarrow> analysis" where
  "analyze_smart_contract outcome =
     (case outcome of
        Returns parsed \<Rightarrow> parsed
      | Raises m \<Rightarrow>
          \<lparr>ai_error = Some (''AI analysis failed: '' @ m),
           ai_vulnerabilities = Some [],
           ai_risk_score = Some 1.0\<rparr>)"

record tx_analysis =
  tx_error :: "string option"
  suspicious_patterns :: "finding list option"
  tx_risk_score :: "real option"

definition analyze_transaction_patterns :: "tx_analysis reply \<Rightarrow> tx_analysis" where
  "analyze_transaction_patterns outcome =
     (case outcome of
        Returns parsed \<Rightarrow> parsed
      | Raises m \<Rightarrow>
          \<lparr>tx_error = Some (''Transaction analysis failed: '' @ m),
           suspicious_patterns = Some [],
           tx_risk_score = Some 0.5\<rparr>)"

text \<open>
  \<open>calculate_combined_risk_score\<close> reads only the key \<open>risk_score\<close> of its two
  dictionaries, so the model takes the two optional scores. A weight missing from
  \<open>weights\<close> raises inside the \<open>try\<close>, whose handler returns 0.7.
\<close>

definition calculate_combined_risk_score ::
  "real option \<Rightarrow> real option \<Rightarrow> (string \<times> real) list option \<Rightarrow> real" where
  "calculate_combined_risk_score code_risk transaction_risk weights_arg =
     (let weights = (case weights_arg of
                       None \<Rightarrow> [(''code_analysis'', 0.6), (''transaction_analysis'', 0.4)]
                     | Some ws \<Rightarrow> ws);
          code_score = (case code_risk of None \<Rightarrow> 0.5 | Some x \<Rightarrow> x);
          transaction_score = (case transaction_risk of None \<Rightarrow> 0.5 | Some x \<Rightarrow> x)
      in case map_of weights ''code_analysis'' of
           None \<Rightarrow> 0.7
         | Some wc \<Rightarrow>
             (case map_of weights ''transaction_analysis'' of
                None \<Rightarrow> 0.7
              | Some wt \<Rightarrow> min 1.0 (max 0.0 (code_score * wc + transaction_score * wt))))"

subsection \<open>analyze\_contract\<close>

record Network =
  net_name :: string
  net_chain_id :: int

datatype scan_error =
    Invalid_network_specified
  | Cannot_establish_connection string
  | Chain_ID_mismatch_on string int int
  | Failed_to_verify_chain_ID string string
  | Network_error_on string exn

record scan_output =
  out_error :: "scan_error option"
  out_vulnerabilities :: "finding list"
  out_risk_score :: real
  out_recommendations :: "string list option"

definition error_output :: "scan_error \<Rightarrow> scan_output" where
  "error_output err =
     \<lparr>out_error = Some err, out_vulnerabilities = [], out_risk_score = 1.0,
      out_recommendations =
        (case err of
           Invalid_network_specified \<Rightarrow> None
         | Cannot_establish_connection _ \<Rightarrow>
             Some [''Try again later or switch to a different network'']
         | Chain_ID_mismatch_on _ _ _ \<Rightarrow> Some [''Verify network configuration'']
         | Failed_to_verify_chain_ID _ _ \<Rightarrow> Some [''Check network connectivity'']
         | Network_error_on _ _ \<Rightarrow>
             Some [''Verify network availability'', ''Check RPC endpoint status''])\<rparr>"

text \<open>
  Lines 18-57 of security_scanner.py. An exception of \<open>get_web3_provider\<close> is caught
  by the outer handler; since \<open>get_web3_provider\<close> never returns \<open>False\<close>, the
  branch \<open>if not is_connected\<close> is not taken. The chain id is then asked of the
  returned provider once more, a further call to the endpoint.
\<close>

definition verify_network :: "world \<Rightarrow> Network \<Rightarrow> conn_state \<Rightarrow> scan_error option \<times> conn_state" where
  "verify_network w network s =
     (case get_web3_provider w (net_chain_id network) False s of
        (Inl ex, s1) \<Rightarrow> (Some (Network_error_on (net_name network) ex), s1)
      | (Inr w3, s1) \<Rightarrow>
          (let e = w (clock s1) (url w3);
               s2 = s1\<lparr>clock := clock s1 + 1, calls := calls s1 @ [Query (url w3)]\<rparr>
           in case chain_id e of
                Raises m \<Rightarrow> (Some (Failed_to_verify_chain_ID (net_name network) m), s2)
              | Returns c \<Rightarrow>
                  if c \<noteq> net_chain_id network
                  then (Some (Chain_ID_mismatch_on (net_name network) (net_chain_id network) c), s2)
                  else (None, s2)))"

text \<open>
  \<open>db\<close> is the table behind \<open>Network.query.get\<close>; \<open>outcome\<close> is what the
  inference request does. The result is the returned dictionary, or the exception that
  leaves the function.
\<close>

definition analyze_contract ::
  "(int \<rightharpoonup> Network) \<Rightarrow> world \<Rightarrow> analysis reply \<Rightarrow> string \<Rightarrow> int \<Rightarrow> conn_state
     \<Rightarrow> (exn + scan_output) \<times> conn_state" where
  "analyze_contract db w outcome source_code network_id s =
     (case db network_id of
        None \<Rightarrow> (Inr (error_output Invalid_network_specified), s)
      | Some network \<Rightarrow>
          (case verify_network w network s of
             (Some err, s') \<Rightarrow> (Inr (error_output err), s')
           | (None, s') \<Rightarrow>
               (let (local_vulnerabilities, local_score) = static_checks source_code;
                    ai_analysis = analyze_smart_contract outcome;
                    (vulnerabilities, risk_score) =
                      (if ai_error ai_analysis = None
                       then (local_vulnerabilities
                               @ (case ai_vulnerabilities ai_analysis of None \<Rightarrow> [] | Some vs \<Rightarrow> vs),
                             0.6 * (case ai_risk_score ai_analysis of None \<Rightarrow> 0.5 | Some a \<Rightarrow> a)
                               + 0.4 * min local_score 1.0)
                       else (local_vulnerabilities, local_score))
                in case generate_recommendations vulnerabilities of
                     Inl ex \<Rightarrow> (Inl ex, s')
                   | Inr recommendations \<Rightarrow>
                       (Inr \<lparr>out_error = None, out_vulnerabilities = vulnerabilities,
                             out_risk_score = min risk_score 1.0,
                             out_recommendations = Some recommendations\<rparr>, s'))))"

subsection \<open>check\_wallet\_safety\<close>

definition check_contract_interactions :: "string \<Rightarrow> real" where
  "check_contract_interactions address = 0.0"

record wallet_output =
  wo_address :: string
  wo_risk_score :: real
  wo_flags :: "finding list"

definition ai_flag :: "finding \<Rightarrow> finding" where
  "ai_flag pattern =
     [(''type'', Str ''ai_detected_pattern''),
      (''severity'', (case map_of pattern ''severity'' of None \<Rightarrow> Str ''medium'' | Some v \<Rightarrow> v)),
      (''description'', (case map_of pattern ''description'' of
                           None \<Rightarrow> Str ''Suspicious pattern detected by AI'' | Some v \<Rightarrow> v))]"

definition check_wallet_safety :: "tx_analysis reply \<Rightarrow> string \<Rightarrow> int \<Rightarrow> wallet_output" where
  "check_wallet_safety outcome address network_id =
     (let interaction_risk = check_contract_interactions address;
          (flags1, risk1) =
            (if interaction_risk > 0
             then ([new_finding ''suspicious_interactions'' (Num interaction_risk)
                      ''Suspicious smart contract interactions detected''], 0 + interaction_risk)
             else ([], 0));
          tx = analyze_transaction_patterns outcome;
          (flags2, risk2) =
            (if tx_error tx = None
             then (flags1 @ map ai_flag (case suspicious_patterns tx of None \<Rightarrow> [] | Some ps \<Rightarrow> ps),
                   calculate_combined_risk_score (Some risk1) (tx_risk_score tx)
                     (Some [(''code_analysis'', 0.4), (''transaction_analysis'', 0.6)]))
             else (flags1, risk1))
      in \<lparr>wo_address = address, wo_risk_score = min risk2 1.0, wo_flags = flags2\<rparr>)"

section \<open>Report generation (utils.py, app.py)\<close>

record ScanResult =
  sr_vulnerabilities :: "finding list"
  sr_risk_score :: real
  sr_scan_date :: string

text \<open>
  The route \<open>analyze\<close> of app.py stores the vulnerabilities and the score of a scan
  whose dictionary has no key \<open>error\<close>; the route \<open>results\<close> passes the stored row
  to \<open>generate_report\<close>.
\<close>

definition store_scan :: "scan_output \<Rightarrow> string \<Rightarrow> ScanResult option" where
  "store_scan scan_result date =
     (if out_error scan_result \<noteq> None then None
      else Some \<lparr>sr_vulnerabilities = out_vulnerabilities scan_result,
                 sr_risk_score = out_risk_score scan_result,
                 sr_scan_date = date\<rparr>)"

text \<open>
  The loop \<open>severity_counts[vuln['severity']] += 1\<close>: the finding must have the key
  \<open>severity\<close>, and its value must be a key of \<open>severity_counts\<close>.
\<close>

fun count_severities :: "(string \<times> nat) list \<Rightarrow> finding list \<Rightarrow> exn + (string \<times> nat) list" where
  "count_severities severity_counts [] = Inr severity_counts"
| "count_severities severity_counts (vuln # rest) =
     (case map_of vuln ''severity'' of
        None \<Rightarrow> Inl (KeyError (Str ''severity''))
      | Some (Num x) \<Rightarrow> Inl (KeyError (Num x))
      | Some (Str sev) \<Rightarrow>
          (case map_of severity_counts sev of
             None \<Rightarrow> Inl (KeyError (Str sev))
           | Some n \<Rightarrow>
               count_severities
                 (map (\<lambda>(k, c). if k = sev then (k, c + 1) else (k, c)) severity_counts) rest))"

record report_summary =
  total_vulnerabilities :: nat
  summary_risk_score :: real
  severity_breakdown :: "(string \<times> nat) list"
  critical_findings :: "finding list"

record report =
  summary :: report_summary
  details :: "finding list"
  timestamp :: string

definition generate_report :: "ScanResult \<Rightarrow> exn + report" where
  "generate_report scan_result =
     (let vulnerabilities = sr_vulnerabilities scan_result
      in case count_severities [(''high'', 0), (''medium'', 0), (''low'', 0)] vulnerabilities of
           Inl ex \<Rightarrow> Inl ex
         | Inr severity_counts \<Rightarrow>
             Inr \<lparr>summary =
                    \<lparr>total_vulnerabilities = length vulnerabilities,
                     summary_risk_score = sr_risk_score scan_result,
                     severity_breakdown = severity_counts,
                     critical_findings =
                       filter (\<lambda>v. map_of v ''severity'' = Some (Str ''high'')) vulnerabilities\<rparr>,
                  details = vulnerabilities,
                  timestamp = sr_scan_date scan_result\<rparr>)"

section \<open>Rate limiter (ai-analyzer.py)\<close>

text \<open>
  Times are seconds on the real line; \<open>now\<close> is what \<open>datetime.now()\<close> returns
  when the method runs.
\<close>

record RateLimiter =
  max_requests :: int
  time_window :: int
  requests :: "real list"

definition new_RateLimiter :: "int \<Rightarrow> int \<Rightarrow> RateLimiter" where
  "new_RateLimiter m tw = \<lparr>max_requests = m, time_window = tw, requests = []\<rparr>"

definition contract_limiter :: RateLimiter where
  "contract_limiter = new_RateLimiter 50 60"

definition transaction_limiter :: RateLimiter where
  "transaction_limiter = new_RateLimiter 50 60"

definition allow_request :: "RateLimiter \<Rightarrow> real \<Rightarrow> bool \<times> RateLimiter" where
  "allow_request self now =
     (let kept = filter (\<lambda>req_time. now - req_time < real_of_int (time_window self)) (requests self)
      in if int (length kept) \<ge> max_requests self
         then (False, self\<lparr>requests := kept\<rparr>)
         else (True, self\<lparr>requests := kept @ [now]\<rparr>))"

definition wait_time :: "RateLimiter \<Rightarrow> real \<Rightarrow> real" where
  "wait_time self now =
     (if requests self = [] then 0
      else (let oldest_request = min_list (requests self);
                next_window = oldest_request + real_of_int (time_window self)
            in if now \<ge> next_window then 0 else next_window - now))"

text \<open>
  The wrapper of \<open>rate_limit\<close>, lines 59-65: when the request is not allowed it
  sleeps for \<open>wait_time()\<close> and then calls the function, without asking the limiter
  again and without recording the call. The result is the time at which the wrapped
  function is called, and the limiter afterwards.
\<close>

definition wrapper :: "RateLimiter \<Rightarrow> real \<Rightarrow> real \<times> RateLimiter" where
  "wrapper limiter now =
     (case allow_request limiter now of
        (True, limiter') \<Rightarrow> (now, limiter')
      | (False, limiter') \<Rightarrow>
          (let wt = wait_time limiter' now
           in if wt > 0 then (now + wt, limiter') else (now, limiter')))"

text \<open>
  A sequence of calls through one wrapper, each arriving at the given time; the result
  lists the times at which the wrapped function is called.
\<close>

fun run_calls :: "RateLimiter \<Rightarrow> real list \<Rightarrow> real list" where
  "run_calls limiter [] = []"
| "run_calls limiter (now # rest) =
     (case wrapper limiter now of (started, limiter') \<Rightarrow> started # run_calls limiter' rest)"

section \<open>Concrete inputs\<close>

text \<open>An endpoint that answers every call and serves chain \<open>c\<close>.\<close>

definition healthy :: "int \<Rightarrow> endpoint" where
  "healthy c = \<lparr>is_connected = Returns True, get_block_latest = Returns (Some 100),
      chain_id = Returns c, still_connected = Returns True, block_number = Returns 100,
      syncing = Returns False\<rparr>"

definition healthy_world :: world where
  "healthy_world t u = healthy 1"

definition mainnet :: Network where
  "mainnet = \<lparr>net_name = ''Ethereum Mainnet'', net_chain_id = 1\<rparr>"

definition demo_db :: "int \<rightharpoonup> Network" where
  "demo_db = [1 \<mapsto> mainnet]"

definition demo_source :: string where
  "demo_source = ''function f() { msg.sender.call.value(1)(); require(tx.origin == owner); }''"

definition risky_source :: string where
  "risky_source = ''a.call.value(1)(); b.call{value: 1}('' @ [dquote, dquote] @ ''); tx.origin''"

definition demo_analysis :: analysis where
  "demo_analysis =
     \<lparr>ai_error = None,
      ai_vulnerabilities =
        Some [[(''type'', Str ''access_control''), (''severity'', Str ''critical'')]],
      ai_risk_score = Some 0.9\<rparr>"

text \<open>
  A response of the inference service with a score and one finding that has a
  description and a severity but no key \<open>type\<close>.
\<close>

definition untyped_analysis :: analysis where
  "untyped_analysis =
     \<lparr>ai_error = None,
      ai_vulnerabilities =
        Some [[(''description'', Str ''Owner can withdraw all funds''),
               (''severity'', Str ''high'')]],
      ai_risk_score = Some 0.9\<rparr>"

definition safe_source :: string where
  "safe_source = ''using SafeMath for uint256;''"

definition demo_address :: string where
  "demo_address = ''0x52908400098527886E0F7030069857D2E4169EE7''"

definition neutral_tx_analysis :: tx_analysis where
  "neutral_tx_analysis = \<lparr>tx_error = None, suspicious_patterns = Some [], tx_risk_score = Some 0.5\<rparr>"

text \<open>
  The row stored for the scan of \<open>risky_source\<close> when the inference service
  reports one finding of severity \<open>critical\<close>, and the row of a scan with local
  findings only.
\<close>

definition stored_scan :: ScanResult where
  "stored_scan =
     \<lparr>sr_vulnerabilities =
        fst (static_checks risky_source)
          @ [[(''type'', Str ''access_control''), (''severity'', Str ''critical'')]],
      sr_risk_score = 0.94, sr_scan_date = ''2024-11-24T10:00:00''\<rparr>"

definition local_scan :: ScanResult where
  "local_scan =
     \<lparr>sr_vulnerabilities = fst (static_checks demo_source),
      sr_risk_score = 1.0, sr_scan_date = ''2024-11-24T10:00:00''\<rparr>"

text \<open>
  Arrival times of 101 calls through the wrapper of \<open>contract_limiter\<close>: 51 at time
  0 and 50 at time 60. Two limiters after one admitted request at time 0.
\<close>

definition burst :: "real list" where
  "burst = replicate 51 0 @ replicate 50 60"

definition one_request :: RateLimiter where
  "one_request = snd (allow_request contract_limiter 0)"

definition single_slot :: RateLimiter where
  "single_slot = snd (allow_request (new_RateLimiter 1 60) 0)"


definition after_first_call :: conn_state where
  "after_first_call = snd (get_web3_provider healthy_world 1 False initial_state)"

section \<open>Notions used in the statements about the connection manager\<close>


text \<open>
  The invariant of the cache: every provider stored under a chain id passed a complete
  connection attempt for that chain id at some earlier tick.
\<close>

definition cache_verified :: "world \<Rightarrow> conn_state \<Rightarrow> bool" where
  "cache_verified w s \<longleftrightarrow>
     (\<forall>k h. web3_providers s k = Some h \<longrightarrow>
        (\<exists>t<clock s. connect_attempt k (w t (url h)) = Inr ()))"

section \<open>Properties of the local checks and of the combined score\<close>

lemma static_checks_eq:
  "static_checks src =
     ((if str_contains ''call.value'' src \<and> \<not> str_contains ''ReentrancyGuard'' src
       then [new_finding ''reentrancy'' (Str ''high'') ''Potential reentrancy vulnerability detected'']
       else [])
      @ (if re_search low_level_call_pattern src \<and> \<not> re_search require_call_pattern src
         then [new_finding ''unchecked_return'' (Str ''medium'')
                 ''Unchecked return value from low-level call'']
         else [])
      @ (if \<not> str_contains ''SafeMath'' src
         then [new_finding ''integer_overflow'' (Str ''medium'') ''No SafeMath usage detected'']
         else [])
      @ (if str_contains ''tx.origin'' src
         then [new_finding ''tx_origin'' (Str ''high'') ''Dangerous tx.origin usage detected'']
         else []),
      (if str_contains ''call.value'' src \<and> \<not> str_contains ''ReentrancyGuard'' src
       then 0.4 else 0)
      + (if re_search low_level_call_pattern src \<and> \<not> re_search require_call_pattern src
         then 0.3 else 0)
      + (if \<not> str_contains ''SafeMath'' src then 0.2 else 0)
      + (if str_contains ''tx.origin'' src then 0.4 else 0))"
  by (simp add: static_checks_def)

lemma static_checks_typed:
  "v \<in> set (fst (static_checks src)) \<Longrightarrow> map_of v ''type'' \<noteq> None"
  by (auto simp: static_checks_eq new_finding_def split: if_splits)

lemma static_checks_nonneg: "0 \<le> snd (static_checks src)"
  by (simp add: static_checks_eq)

lemma recommendations_loop_typed:
  "\<forall>v\<in>set vs. map_of v ''type'' \<noteq> None \<Longrightarrow> \<exists>r. recommendations_loop acc vs = Inr r"
  by (induction vs arbitrary: acc) auto

lemma local_recommendations: "\<exists>r. generate_recommendations (fst (static_checks src)) = Inr r"
  unfolding generate_recommendations_def
  using recommendations_loop_typed static_checks_typed by blast

lemma demo_source_facts:
  "str_contains ''call.value'' demo_source" "\<not> str_contains ''ReentrancyGuard'' demo_source"
  "\<not> str_contains ''SafeMath'' demo_source" "str_contains ''tx.origin'' demo_source"
  "\<not> re_search low_level_call_pattern demo_source"
  by (simp_all add: demo_source_def low_level_call_pattern_def match_at_def)

lemma risky_source_score: "snd (static_checks risky_source) = 1.3"
  by (simp add: static_checks_eq risky_source_def low_level_call_pattern_def
      require_call_pattern_def match_at_def dquote_def newline_def)

lemma healthy_verify: "fst (verify_network healthy_world mainnet initial_state) = None"
  by (simp add: verify_network_def get_web3_provider_def NETWORK_CONFIGS_def
      cached_provider_def initial_state_def connect_attempt_def add_network_middlewares_def health_check_def
      sync_check_def healthy_def healthy_world_def mainnet_def eval_nat_numeral)

text \<open>
  Claim C9. The local checks are additive: each of the four checks that fires appends its
  finding and adds its fixed increment (reentrancy 0.4, unchecked low-level call 0.3,
  missing overflow guard 0.2, caller identity 0.4) to a subtotal that starts at 0. A
  source that contains \<open>call.value\<close> without \<open>ReentrancyGuard\<close>, contains no
  \<open>SafeMath\<close>, contains \<open>tx.origin\<close> and does not trigger the unchecked-return
  check yields exactly the three findings reentrancy, integer\_overflow, tx\_origin and
  the subtotal 0.4 + 0.2 + 0.4 = 1.0, which the clamp leaves at 1.0.
\<close>

theorem local_checks_additive:
  "static_checks src =
     ((if str_contains ''call.value'' src \<and> \<not> str_contains ''ReentrancyGuard'' src
       then [new_finding ''reentrancy'' (Str ''high'') ''Potential reentrancy vulnerability detected'']
       else [])
      @ (if re_search low_level_call_pattern src \<and> \<not> re_search require_call_pattern src
         then [new_finding ''unchecked_return'' (Str ''medium'')
                 ''Unchecked return value from low-level call'']
         else [])
      @ (if \<not> str_contains ''SafeMath'' src
         then [new_finding ''integer_overflow'' (Str ''medium'') ''No SafeMath usage detected'']
         else [])
      @ (if str_contains ''tx.origin'' src
         then [new_finding ''tx_origin'' (Str ''high'') ''Dangerous tx.origin usage detected'']
         else []),
      (if str_contains ''call.value'' src \<and> \<not> str_contains ''ReentrancyGuard'' src
       then 0.4 else 0)
      + (if re_search low_level_call_pattern src \<and> \<not> re_search require_call_pattern src
         then 0.3 else 0)
      + (if \<not> str_contains ''SafeMath'' src then 0.2 else 0)
      + (if str_contains ''tx.origin'' src then 0.4 else 0))
   \<and> (str_contains ''call.value'' src \<and> \<not> str_contains ''ReentrancyGuard'' src
        \<and> \<not> str_contains ''SafeMath'' src \<and> str_contains ''tx.origin'' src
        \<and> \<not> (re_search low_level_call_pattern src \<and> \<not> re_search require_call_pattern src)
      \<longrightarrow> map (\<lambda>v. map_of v ''type'') (fst (static_checks src))
            = [Some (Str ''reentrancy''), Some (Str ''integer_overflow''), Some (Str ''tx_origin'')]
          \<and> snd (static_checks src) = 0.4 + 0.2 + 0.4
          \<and> snd (static_checks src) = 1.0
          \<and> min (snd (static_checks src)) 1.0 = 1.0)"
  by (simp add: static_checks_eq new_finding_def)

theorem local_checks_additive_witness:
  "str_contains ''call.value'' demo_source \<and> \<not> str_contains ''ReentrancyGuard'' demo_source
   \<and> \<not> str_contains ''SafeMath'' demo_source \<and> str_contains ''tx.origin'' demo_source
   \<and> \<not> (re_search low_level_call_pattern demo_source
          \<and> \<not> re_search require_call_pattern demo_source)
   \<and> map (\<lambda>v. map_of v ''type'') (fst (static_checks demo_source))
        = [Some (Str ''reentrancy''), Some (Str ''integer_overflow''), Some (Str ''tx_origin'')]
   \<and> snd (static_checks demo_source) = 1.0"
  using local_checks_additive [of demo_source] demo_source_facts
  by (simp add: new_finding_def)

text \<open>
  The combination of lines 127-138, in the real arithmetic of the model: when the
  response has no key \<open>error\<close> and each of its findings has a type, the scan returns
  \<open>0.6 * a + 0.4 * min l 1\<close> for the response's score \<open>a\<close> (0.5 when absent) and
  the local subtotal \<open>l\<close>.
\<close>

lemma score_of_typed_response:
  assumes net: "db network_id = Some network"
    and conn: "fst (verify_network w network s) = None"
    and ok: "ai_error parsed = None"
    and a: "a = (case ai_risk_score parsed of None \<Rightarrow> 0.5 | Some x \<Rightarrow> x)"
    and range: "0 \<le> a" "a \<le> 1"
    and l: "l = snd (static_checks source_code)"
    and typed: "\<forall>v \<in> set (case ai_vulnerabilities parsed of None \<Rightarrow> [] | Some vs \<Rightarrow> vs).
                  map_of v ''type'' \<noteq> None"
  shows "0 \<le> l \<and> (\<exists>out. fst (analyze_contract db w (Returns parsed) source_code network_id s) = Inr out
           \<and> out_error out = None
           \<and> out_risk_score out = 0.6 * a + 0.4 * min l 1.0
           \<and> 0 \<le> out_risk_score out \<and> out_risk_score out \<le> 1)"
proof -
  obtain s' where v: "verify_network w network s = (None, s')"
    using conn by (cases "verify_network w network s") auto
  obtain vs where sc: "static_checks source_code = (vs, l)"
    using l by (cases "static_checks source_code") auto
  let ?all = "vs @ (case ai_vulnerabilities parsed of None \<Rightarrow> [] | Some vs \<Rightarrow> vs)"
  have "\<forall>v\<in>set ?all. map_of v ''type'' \<noteq> None"
    using typed static_checks_typed [of _ source_code] sc by auto
  then obtain recs where recs: "generate_recommendations ?all = Inr recs"
    unfolding generate_recommendations_def using recommendations_loop_typed by blast
  have l0: "0 \<le> l" using static_checks_nonneg [of source_code] l by simp
  have bound: "0.6 * a + 0.4 * min l 1.0 \<le> 1" "0 \<le> 0.6 * a + 0.4 * min l 1.0"
    using range l0 by (auto simp: min_def)
  have "fst (analyze_contract db w (Returns parsed) source_code network_id s)
          = Inr \<lparr>out_error = None, out_vulnerabilities = ?all,
                 out_risk_score = min (0.6 * a + 0.4 * min l 1.0) 1.0,
                 out_recommendations = Some recs\<rparr>"
    using net v sc ok a recs by (simp add: analyze_contract_def analyze_smart_contract_def)
  then show ?thesis using l0 bound by (simp add: min_def)
qed

text \<open>
  \<open>generate_recommendations\<close> is given the local findings followed by those of the
  response. One finding without the key \<open>type\<close> anywhere in the list makes the loop
  raise \<open>KeyError\<close>, and nothing in \<open>analyze_contract\<close> catches it.
\<close>

lemma recommendations_loop_untyped:
  "\<exists>v\<in>set vs. map_of v ''type'' = None \<Longrightarrow>
     recommendations_loop acc vs = Inl (KeyError (Str ''type''))"
  by (induction vs arbitrary: acc) (auto split: option.splits)

lemma untyped_response_raises:
  assumes net: "db network_id = Some network"
    and conn: "fst (verify_network w network s) = None"
    and ok: "ai_error parsed = None"
    and vs: "ai_vulnerabilities parsed = Some ai_vs"
    and untyped: "\<exists>v\<in>set ai_vs. map_of v ''type'' = None"
  shows "fst (analyze_contract db w (Returns parsed) source_code network_id s)
           = Inl (KeyError (Str ''type''))"
proof -
  obtain s' where v: "verify_network w network s = (None, s')"
    using conn by (cases "verify_network w network s") auto
  obtain local_vs l where sc: "static_checks source_code = (local_vs, l)"
    by (cases "static_checks source_code") auto
  have "\<exists>v\<in>set (local_vs @ ai_vs). map_of v ''type'' = None"
    using untyped by auto
  then have "generate_recommendations (local_vs @ ai_vs) = Inl (KeyError (Str ''type''))"
    unfolding generate_recommendations_def by (rule recommendations_loop_untyped)
  then show ?thesis
    using net v sc ok vs by (simp add: analyze_contract_def analyze_smart_contract_def)
qed

text \<open>
  Claim C2. Every contract scan whose inference call succeeds with a score \<open>a\<close> in
  \<open>[0,1]\<close> should return the score \<open>0.6 * a + 0.4 * min l 1\<close>. The scan computes
  that score, but before it returns it builds the recommendations from all findings, those
  of the response included, and reads \<open>vuln["type"]\<close> of each. For the source
  \<open>demo_source\<close> on chain 1 and the response \<open>untyped_analysis\<close>, which has no
  key \<open>error\<close>, the score 0.9 and one finding without the key \<open>type\<close>, the scan
  returns no score: it raises \<open>KeyError('type')\<close>.
\<close>

theorem untyped_finding_aborts_scan:
  "ai_error untyped_analysis = None
   \<and> ai_risk_score untyped_analysis = Some 0.9
   \<and> fst (analyze_contract demo_db healthy_world (Returns untyped_analysis) demo_source 1
            initial_state)
       = Inl (KeyError (Str ''type''))"
proof -
  have net: "demo_db 1 = Some mainnet" by (simp add: demo_db_def)
  have ok: "ai_error untyped_analysis = None" by (simp add: untyped_analysis_def)
  have vs: "ai_vulnerabilities untyped_analysis
              = Some [[(''description'', Str ''Owner can withdraw all funds''),
                       (''severity'', Str ''high'')]]"
    by (simp add: untyped_analysis_def)
  have untyped: "\<exists>v\<in>set [[(''description'', Str ''Owner can withdraw all funds''),
                            (''severity'', Str ''high'')]]. map_of v ''type'' = None"
    by simp
  have "fst (analyze_contract demo_db healthy_world (Returns untyped_analysis) demo_source 1
               initial_state)
          = Inl (KeyError (Str ''type''))"
    using net healthy_verify ok vs untyped
    by (rule untyped_response_raises [where db = demo_db and network_id = 1])
  then show ?thesis using ok by (simp add: untyped_analysis_def)
qed

section \<open>Failure of the inference call\<close>

lemma safe_source_checks: "static_checks safe_source = ([], 0)"
  by (simp add: static_checks_eq safe_source_def low_level_call_pattern_def match_at_def)

lemma safe_scan_result:
  "fst (analyze_contract demo_db healthy_world (Raises ''timeout'') safe_source 1 initial_state)
     = Inr \<lparr>out_error = None, out_vulnerabilities = [], out_risk_score = 0,
            out_recommendations = Some []\<rparr>"
proof -
  obtain s' where v: "verify_network healthy_world mainnet initial_state = (None, s')"
    using healthy_verify by (cases "verify_network healthy_world mainnet initial_state") auto
  show ?thesis
    using v by (simp add: analyze_contract_def demo_db_def safe_source_checks
        analyze_smart_contract_def generate_recommendations_def)
qed

text \<open>
  Claim C3, as the code has it. When the inference call fails, the scan is not aborted:
  \<open>analyze_smart_contract\<close> returns the placeholder with score 1.0 and no findings.
  The placeholder carries the key \<open>error\<close>, and \<open>analyze_contract\<close> combines the
  two scores only when that key is absent; so the placeholder does not enter the
  weighted combination: the scan returns the local findings alone and the local subtotal
  capped at 1.0.
\<close>

theorem inference_failure_absorbed:
  assumes net: "db network_id = Some network"
    and conn: "fst (verify_network w network s) = None"
  shows "analyze_smart_contract (Raises m)
           = \<lparr>ai_error = Some (''AI analysis failed: '' @ m), ai_vulnerabilities = Some [],
              ai_risk_score = Some 1.0\<rparr>
         \<and> (\<exists>out. fst (analyze_contract db w (Raises m) source_code network_id s) = Inr out
               \<and> out_error out = None
               \<and> out_vulnerabilities out = fst (static_checks source_code)
               \<and> out_risk_score out = min (snd (static_checks source_code)) 1.0)"
proof -
  obtain s' where v: "verify_network w network s = (None, s')"
    using conn by (cases "verify_network w network s") auto
  obtain vs l where sc: "static_checks source_code = (vs, l)"
    by (cases "static_checks source_code") auto
  obtain recs where recs: "generate_recommendations vs = Inr recs"
    using local_recommendations [of source_code] sc by auto
  have "fst (analyze_contract db w (Raises m) source_code network_id s)
          = Inr \<lparr>out_error = None, out_vulnerabilities = vs, out_risk_score = min l 1.0,
                 out_recommendations = Some recs\<rparr>"
    using net v sc recs by (simp add: analyze_contract_def analyze_smart_contract_def)
  then show ?thesis using sc by (simp add: analyze_smart_contract_def)
qed

theorem inference_failure_absorbed_witness:
  "\<exists>out. fst (analyze_contract demo_db healthy_world (Raises ''timeout'') safe_source 1
                 initial_state) = Inr out
     \<and> out_error out = None \<and> out_vulnerabilities out = [] \<and> out_risk_score out = 0"
proof -
  have h1: "demo_db 1 = Some mainnet" by (simp add: demo_db_def)
  from inference_failure_absorbed [where db = demo_db and network_id = 1, OF h1 healthy_verify,
      of "''timeout''" safe_source]
  show ?thesis by (simp add: safe_source_checks)
qed

text \<open>
  Claim C3, as stated, fails: for a source that triggers no local check and a failed
  inference call the returned score is 0, not the weighted combination
  \<open>0.6 * 1.0 + 0.4 * min l 1\<close> of the placeholder with the local subtotal.
\<close>

theorem placeholder_not_combined:
  "map_sum id out_risk_score
     (fst (analyze_contract demo_db healthy_world (Raises ''timeout'') safe_source 1 initial_state))
     = Inr 0
   \<and> map_sum id out_risk_score
     (fst (analyze_contract demo_db healthy_world (Raises ''timeout'') safe_source 1 initial_state))
     \<noteq> Inr (0.6 * 1.0 + 0.4 * min (snd (static_checks safe_source)) 1.0)"
  by (simp add: safe_scan_result safe_source_checks)

text \<open>
  Claim C4, as the code has it. When the inference call of a wallet scan fails,
  \<open>analyze_transaction_patterns\<close> returns the default with score 0.5 and no
  patterns; that default carries the key \<open>error\<close>, so \<open>check_wallet_safety\<close> adds
  no flag and skips the combination: the returned score is the heuristic score alone,
  0.0. The weights 0.4 and 0.6 are applied only to a response without that key, where
  the heuristic score 0.0 and an inference score 0.5 give 0.3.
\<close>

theorem wallet_inference_failure:
  "analyze_transaction_patterns (Raises m)
     = \<lparr>tx_error = Some (''Transaction analysis failed: '' @ m), suspicious_patterns = Some [],
        tx_risk_score = Some 0.5\<rparr>
   \<and> check_wallet_safety (Raises m) address network_id
     = \<lparr>wo_address = address, wo_risk_score = 0, wo_flags = []\<rparr>
   \<and> (tx_error parsed = None \<and> tx_risk_score parsed = Some 0.5 \<longrightarrow>
        wo_risk_score (check_wallet_safety (Returns parsed) address network_id) = 0.3)"
  by (simp add: analyze_transaction_patterns_def check_wallet_safety_def
      check_contract_interactions_def calculate_combined_risk_score_def)

theorem wallet_inference_failure_witness:
  "tx_error neutral_tx_analysis = None \<and> tx_risk_score neutral_tx_analysis = Some 0.5
   \<and> wo_risk_score (check_wallet_safety (Returns neutral_tx_analysis) demo_address 1) = 0.3
   \<and> check_wallet_safety (Raises ''timeout'') demo_address 1
       = \<lparr>wo_address = demo_address, wo_risk_score = 0, wo_flags = []\<rparr>"
  using wallet_inference_failure [of "''timeout''" demo_address 1 neutral_tx_analysis]
  by (simp add: neutral_tx_analysis_def)

text \<open>
  Claim C4, as stated, fails: with a failed inference call the wallet scan returns the
  score 0, not 0.3.
\<close>

theorem wallet_score_not_0_3:
  "wo_risk_score (check_wallet_safety (Raises ''timeout'') demo_address 1) = 0
   \<and> wo_risk_score (check_wallet_safety (Raises ''timeout'') demo_address 1) \<noteq> 0.3"
  by (simp add: analyze_transaction_patterns_def check_wallet_safety_def
      check_contract_interactions_def)

section \<open>Report generation\<close>

lemma keys_bump:
  "fst ` (\<lambda>(k, c). if k = sev then (k, c + 1) else (k, c)) ` set cs = fst ` set cs"
  by (induction cs) (auto split: if_splits)

lemma count_severities_returns:
  "(\<exists>r. count_severities cs vs = Inr r)
     \<longleftrightarrow> (\<forall>v\<in>set vs. \<exists>sev. map_of v ''severity'' = Some (Str sev) \<and> sev \<in> fst ` set cs)"
proof (induction vs arbitrary: cs)
  case Nil
  then show ?case by simp
next
  case (Cons v vs)
  show ?case
  proof (cases "map_of v ''severity''")
    case None
    then show ?thesis by simp
  next
    case (Some j)
    show ?thesis
    proof (cases j)
      case (Num x)
      with Some show ?thesis by simp
    next
      case (Str sev)
      show ?thesis
      proof (cases "map_of cs sev")
        case None
        then have "sev \<notin> fst ` set cs" by (simp add: map_of_eq_None_iff)
        with None Some Str show ?thesis by simp
      next
        case (Some n)
        then have "sev \<in> fst ` set cs" by (metis map_of_eq_None_iff option.distinct(1))
        with Some \<open>map_of v ''severity'' = Some j\<close> Str Cons.IH [of "map (\<lambda>(k, c). if k = sev then (k, c + 1) else (k, c)) cs"]
        show ?thesis by (simp add: keys_bump)
      qed
    qed
  qed
qed

lemma count_severities_raises:
  "count_severities cs vs = Inl ex \<Longrightarrow> \<exists>k. ex = KeyError k"
  by (induction vs arbitrary: cs) (auto split: option.splits jval.splits)

lemma risky_scan_result:
  "\<exists>recs. fst (analyze_contract demo_db healthy_world (Returns demo_analysis) risky_source 1 initial_state)
     = Inr \<lparr>out_error = None, out_vulnerabilities = sr_vulnerabilities stored_scan, out_risk_score = 0.94,
            out_recommendations = Some recs\<rparr>"
proof -
  obtain s' where v: "verify_network healthy_world mainnet initial_state = (None, s')"
    using healthy_verify by (cases "verify_network healthy_world mainnet initial_state") auto
  obtain vs where sc: "static_checks risky_source = (vs, 1.3)"
    using risky_source_score by (cases "static_checks risky_source") auto
  have "\<forall>v\<in>set (vs @ [[(''type'', Str ''access_control''), (''severity'', Str ''critical'')]]). map_of v ''type'' \<noteq> None"
    using static_checks_typed [of _ risky_source] sc by auto
  then obtain recs where "generate_recommendations (vs @ [[(''type'', Str ''access_control''), (''severity'', Str ''critical'')]]) = Inr recs"
    unfolding generate_recommendations_def using recommendations_loop_typed by blast
  then show ?thesis
    using v sc by (simp add: analyze_contract_def demo_db_def
        analyze_smart_contract_def demo_analysis_def stored_scan_def)
qed

lemma stored_scan_report: "generate_report stored_scan = Inl (KeyError (Str ''critical''))"
  by (simp add: generate_report_def stored_scan_def static_checks_eq risky_source_def low_level_call_pattern_def
      require_call_pattern_def match_at_def dquote_def newline_def new_finding_def)

text \<open>
  Claim C10. \<open>generate_report\<close> is partial over the severities the system produces.
  A scan whose inference response reports a finding of severity \<open>critical\<close> returns
  normally and is stored with that finding, and \<open>generate_report\<close> on the stored
  row fails with a \<open>KeyError\<close>. In general \<open>generate_report\<close> returns a report
  exactly when every finding has a severity among \<open>high\<close>, \<open>medium\<close> and
  \<open>low\<close>, and otherwise fails with a \<open>KeyError\<close>.
\<close>

theorem generate_report_partial:
  "(\<exists>out. fst (analyze_contract demo_db healthy_world (Returns demo_analysis) risky_source 1 initial_state) = Inr out
       \<and> store_scan out ''2024-11-24T10:00:00'' = Some stored_scan
       \<and> generate_report stored_scan = Inl (KeyError (Str ''critical'')))
   \<and> ((\<exists>r. generate_report scan_result = Inr r)
        \<longleftrightarrow> (\<forall>v \<in> set (sr_vulnerabilities scan_result).
               map_of v ''severity'' \<in> {Some (Str ''high''), Some (Str ''medium''), Some (Str ''low'')}))
   \<and> ((\<exists>r. generate_report scan_result = Inr r) \<or> (\<exists>k. generate_report scan_result = Inl (KeyError k)))"
proof -
  have a: "\<exists>out. fst (analyze_contract demo_db healthy_world (Returns demo_analysis) risky_source 1 initial_state) = Inr out
       \<and> store_scan out ''2024-11-24T10:00:00'' = Some stored_scan
       \<and> generate_report stored_scan = Inl (KeyError (Str ''critical''))"
  proof -
    from risky_scan_result obtain recs where
      r: "fst (analyze_contract demo_db healthy_world (Returns demo_analysis) risky_source 1
                 initial_state)
            = Inr \<lparr>out_error = None, out_vulnerabilities = sr_vulnerabilities stored_scan,
                   out_risk_score = 0.94, out_recommendations = Some recs\<rparr>"
      by blast
    have "store_scan \<lparr>out_error = None, out_vulnerabilities = sr_vulnerabilities stored_scan,
                   out_risk_score = 0.94, out_recommendations = Some recs\<rparr>
             ''2024-11-24T10:00:00'' = Some stored_scan"
      by (simp add: store_scan_def stored_scan_def)
    with r stored_scan_report show ?thesis by blast
  qed
  let ?c = "count_severities [(''high'', 0), (''medium'', 0), (''low'', 0)] (sr_vulnerabilities scan_result)"
  have g: "(\<exists>r. generate_report scan_result = Inr r) \<longleftrightarrow> (\<exists>r. ?c = Inr r)"
    by (cases ?c) (simp_all add: generate_report_def Let_def)
  have b: "(\<exists>r. generate_report scan_result = Inr r)
        \<longleftrightarrow> (\<forall>v \<in> set (sr_vulnerabilities scan_result).
               map_of v ''severity'' \<in> {Some (Str ''high''), Some (Str ''medium''), Some (Str ''low'')})"
    unfolding g count_severities_returns by auto
  have c: "(\<exists>r. generate_report scan_result = Inr r) \<or> (\<exists>k. generate_report scan_result = Inl (KeyError k))"
    using count_severities_raises [of "[(''high'', 0), (''medium'', 0), (''low'', 0)]" "sr_vulnerabilities scan_result"]
    by (cases ?c) (auto simp: generate_report_def Let_def)
  from a b c show ?thesis by blast
qed


theorem generate_report_partial_witness:
  "map (\<lambda>v. map_of v ''severity'') (sr_vulnerabilities local_scan)
     = [Some (Str ''high''), Some (Str ''medium''), Some (Str ''high'')]
   \<and> (\<exists>r. generate_report local_scan = Inr r)"
  using generate_report_partial [of local_scan] demo_source_facts
  by (simp add: local_scan_def static_checks_eq new_finding_def)

section \<open>Rate limiter\<close>

lemma run_calls_length: "length (run_calls limiter arrivals) = length arrivals"
  by (induction arrivals arbitrary: limiter) (auto split: prod.splits)

text \<open>
  Claim C7. Through the wrapper of one limiter at most \<open>max_requests\<close> calls should
  start within any trailing window, and no call is dropped. No call is dropped, and the
  51st call of a burst is delayed until the first timestamp is 60 seconds old; but the
  delayed call is neither recorded nor checked again. For the arrivals \<open>burst\<close> the 51st
  call starts at time 60 unrecorded, the 50 calls arriving at time 60 are all admitted,
  and 51 calls start inside the window that ends at time 60, one more than
  \<open>max_requests = 50\<close>.
\<close>

theorem rate_limit_overrun:
  "run_calls contract_limiter burst = replicate 50 0 @ replicate 51 60
   \<and> length (filter (\<lambda>started. 60 - started < real_of_int (time_window contract_limiter))
               (run_calls contract_limiter burst)) = 51
   \<and> max_requests contract_limiter = 50
   \<and> length (run_calls contract_limiter burst) = length burst"
  by code_simp

lemma min_list_in: "xs \<noteq> [] \<Longrightarrow> min_list xs \<in> set (xs :: real list)"
  by (simp add: min_list_Min)

lemma filter_full:
  "length xs \<le> length (filter P xs) \<Longrightarrow> filter P xs = xs"
  by (metis filter_id_conv length_filter_less not_less)

lemma allow_request_bounded:
  "int (length (requests self)) \<le> max_requests self
     \<Longrightarrow> int (length (requests (snd (allow_request self t)))) \<le> max_requests self"
proof -
  let ?kept = "filter (\<lambda>req_time. t - req_time < real_of_int (time_window self)) (requests self)"
  assume le: "int (length (requests self)) \<le> max_requests self"
  have "length ?kept \<le> length (requests self)" by (rule length_filter_le)
  then have k: "int (length ?kept) \<le> max_requests self" using le by linarith
  show ?thesis
  proof (cases "max_requests self \<le> int (length ?kept)")
    case True
    then show ?thesis using k by (simp add: allow_request_def Let_def)
  next
    case False
    then show ?thesis by (simp add: allow_request_def Let_def)
  qed
qed

text \<open>
  Claim C8, as the code has it. \<open>wait_time\<close> does not look at \<open>max_requests\<close>: it
  returns 0 when no timestamp is recorded or the oldest recorded timestamp has aged out
  of the window, and otherwise the remaining delay until the oldest recorded timestamp
  ages out, whether the window is full or not. It is never negative and is non-increasing
  as time advances with the recorded timestamps unchanged. When the window is full, in a
  state with at most \<open>max_requests\<close> timestamps (which \<open>allow_request\<close> preserves),
  every recorded timestamp is in the window, and the value is the positive delay until
  the oldest in-window timestamp ages out.
\<close>

theorem wait_time_characterised:
  "wait_time self now =
     (if requests self = [] \<or> min_list (requests self) + real_of_int (time_window self) \<le> now
      then 0
      else min_list (requests self) + real_of_int (time_window self) - now)
   \<and> 0 \<le> wait_time self now
   \<and> (now \<le> now' \<longrightarrow> wait_time self now' \<le> wait_time self now)
   \<and> (requests self \<noteq> [] \<and> int (length (requests self)) \<le> max_requests self
        \<and> max_requests self
             \<le> int (length (filter (\<lambda>req_time. now - req_time < real_of_int (time_window self))
                                (requests self)))
      \<longrightarrow> wait_time self now
            = min_list (filter (\<lambda>req_time. now - req_time < real_of_int (time_window self))
                          (requests self))
              + real_of_int (time_window self) - now
          \<and> 0 < wait_time self now)
   \<and> (int (length (requests self)) \<le> max_requests self
      \<longrightarrow> int (length (requests (snd (allow_request self now)))) \<le> max_requests self)"
proof -
  let ?tw = "real_of_int (time_window self)"
  let ?in = "\<lambda>req_time. now - req_time < ?tw"
  have c1: "wait_time self now =
     (if requests self = [] \<or> min_list (requests self) + ?tw \<le> now then 0
      else min_list (requests self) + ?tw - now)"
    by (simp add: wait_time_def Let_def)
  have c2: "0 \<le> wait_time self now" by (simp add: wait_time_def Let_def)
  have c3: "now \<le> now' \<longrightarrow> wait_time self now' \<le> wait_time self now"
    by (simp add: wait_time_def Let_def)
  have c4: "wait_time self now = min_list (filter ?in (requests self)) + ?tw - now
            \<and> 0 < wait_time self now"
    if ne: "requests self \<noteq> []" and le: "int (length (requests self)) \<le> max_requests self"
      and full: "max_requests self \<le> int (length (filter ?in (requests self)))"
  proof -
    have "length (requests self) \<le> length (filter ?in (requests self))"
      using le full by linarith
    then have all: "filter ?in (requests self) = requests self" by (rule filter_full)
    then have "\<forall>t\<in>set (requests self). ?in t" by (simp add: filter_id_conv)
    then have "?in (min_list (requests self))" using min_list_in [OF ne] by blast
    then show ?thesis using all ne by (simp add: wait_time_def Let_def)
  qed
  from c1 c2 c3 c4 allow_request_bounded [of self now] show ?thesis by blast
qed

theorem wait_time_characterised_witness:
  "requests single_slot \<noteq> [] \<and> int (length (requests single_slot)) \<le> max_requests single_slot
   \<and> max_requests single_slot
        \<le> int (length (filter (\<lambda>req_time. 10 - req_time < real_of_int (time_window single_slot))
                           (requests single_slot)))
   \<and> wait_time single_slot 10 = 50 \<and> (10::real) \<le> 20
   \<and> wait_time single_slot 20 \<le> wait_time single_slot 10
   \<and> wait_time single_slot 60 = 0"
  using wait_time_characterised [of single_slot 10 20] wait_time_characterised [of single_slot 60 60]
  by (simp add: single_slot_def allow_request_def new_RateLimiter_def)

text \<open>
  Claim C8, as stated, fails: after one admitted request at time 0 the window of
  \<open>contract_limiter\<close> holds one timestamp of 50 allowed, and \<open>wait_time\<close> at time
  10 is 50, not 0.
\<close>

theorem wait_time_positive_when_not_full:
  "int (length (filter (\<lambda>req_time. 10 - req_time < real_of_int (time_window one_request))
                  (requests one_request))) < max_requests one_request
   \<and> wait_time one_request 10 = 50
   \<and> wait_time one_request 10 \<noteq> 0"
  by (simp add: one_request_def allow_request_def contract_limiter_def new_RateLimiter_def
      wait_time_def)

section \<open>Connection manager\<close>

text \<open>
  Claim C5. For a chain id that is not a key of \<open>NETWORK_CONFIGS\<close>,
  \<open>get_web3_provider\<close> fails with the \<open>ValueError\<close> for an unsupported network
  and leaves the state as it was: the cache, the clock and the trace are unchanged, so no
  endpoint was probed or attempted.
\<close>

theorem unknown_network_no_call:
  "network_id \<notin> dom NETWORK_CONFIGS \<Longrightarrow>
     get_web3_provider w network_id force_new s = (Inl (ValueError network_id), s)"
  by (auto simp: get_web3_provider_def split: option.splits)

theorem unknown_network_no_call_witness:
  "2 \<notin> dom NETWORK_CONFIGS \<and>
   get_web3_provider healthy_world 2 False initial_state = (Inl (ValueError 2), initial_state)"
proof -
  have h: "2 \<notin> dom NETWORK_CONFIGS" by (simp add: NETWORK_CONFIGS_def dom_def)
  from unknown_network_no_call [OF h] h show ?thesis by simp
qed








lemma connect_attempt_chain:
  "connect_attempt k e = Inr u \<Longrightarrow> chain_id e = Returns k"
  by (auto simp: connect_attempt_def add_network_middlewares_def health_check_def
      split: reply.splits bool.splits option.splits sum.splits if_splits)

lemma cache_verified_mono:
  assumes "cache_verified w s" and "clock s \<le> clock s'"
    and "\<And>k h. web3_providers s' k = Some h \<Longrightarrow> web3_providers s k = Some h"
  shows "cache_verified w s'"
  unfolding cache_verified_def
proof (intro allI impI)
  fix k h assume "web3_providers s' k = Some h"
  then have "web3_providers s k = Some h" by (rule assms(3))
  then obtain t where "t < clock s" "connect_attempt k (w t (url h)) = Inr ()"
    using assms(1) unfolding cache_verified_def by blast
  then show "\<exists>t<clock s'. connect_attempt k (w t (url h)) = Inr ()"
    using assms(2) by (meson less_le_trans)
qed

lemma try_attempts_verified:
  assumes "cache_verified w s"
    and "try_attempts w k u rc attempts last_error s = (r, last_error', s')"
  shows "cache_verified w s' \<and> clock s \<le> clock s'
         \<and> (\<forall>h. r = Some h \<longrightarrow> web3_providers s' k = Some h
                \<and> (\<exists>t. clock s \<le> t \<and> t < clock s' \<and> connect_attempt k (w t (url h)) = Inr ()))"
  using assms
proof (induction attempts arbitrary: last_error s)
  case Nil
  then show ?case by simp
next
  case (Cons a attempts)
  let ?s1 = "s\<lparr>clock := clock s + 1, calls := calls s @ [Attempt u a]\<rparr>"
  let ?s2 = "if a < rc - 1 then ?s1\<lparr>calls := calls ?s1 @ [Sleep (a + 1)]\<rparr> else ?s1"
  show ?case
  proof (cases "connect_attempt k (w (clock s) u)")
    case (Inl f)
    have v2: "cache_verified w ?s2"
      using Cons.prems(1) by (rule cache_verified_mono) (auto split: if_splits)
    have "try_attempts w k u rc attempts (Some f) ?s2 = (r, last_error', s')"
      using Cons.prems(2) Inl by (cases "a < rc - 1") (simp_all add: Let_def)
    from Cons.IH [OF v2 this]
    have b: "cache_verified w s'" "clock ?s2 \<le> clock s'"
      "\<forall>h. r = Some h \<longrightarrow> web3_providers s' k = Some h
            \<and> (\<exists>t. clock ?s2 \<le> t \<and> t < clock s' \<and> connect_attempt k (w t (url h)) = Inr ())"
      by blast+
    have c2: "clock ?s2 = clock s + 1" by simp
    show ?thesis
    proof (intro conjI allI impI)
      show "cache_verified w s'" by (rule b(1))
      show "clock s \<le> clock s'" using b(2) c2 by linarith
    next
      fix h assume "r = Some h"
      with b(3) obtain t where "web3_providers s' k = Some h" "clock ?s2 \<le> t" "t < clock s'"
        "connect_attempt k (w t (url h)) = Inr ()" by blast
      then show "web3_providers s' k = Some h"
        and "\<exists>t. clock s \<le> t \<and> t < clock s' \<and> connect_attempt k (w t (url h)) = Inr ()"
        using c2 by (auto intro!: exI [of _ t])
    qed
  next
    case (Inr x)
    then have ok: "connect_attempt k (w (clock s) u) = Inr ()" by simp
    have r: "r = Some \<lparr>url = u\<rparr>"
      and s': "s' = ?s1\<lparr>web3_providers := (web3_providers ?s1)(k \<mapsto> \<lparr>url = u\<rparr>)\<rparr>"
      using Cons.prems(2) Inr by (auto simp: Let_def)
    have "cache_verified w s'"
      unfolding cache_verified_def
    proof (intro allI impI)
      fix k' h assume lk: "web3_providers s' k' = Some h"
      show "\<exists>t<clock s'. connect_attempt k' (w t (url h)) = Inr ()"
      proof (cases "k' = k")
        case True
        then have "h = \<lparr>url = u\<rparr>" using lk s' by simp
        then show ?thesis using ok True s' by auto
      next
        case False
        then have "web3_providers s k' = Some h" using lk s' by simp
        then obtain t where "t < clock s" "connect_attempt k' (w t (url h)) = Inr ()"
          using Cons.prems(1) unfolding cache_verified_def by blast
        then show ?thesis using s' by (auto intro: exI [of _ t])
      qed
    qed
    moreover have "\<exists>t. clock s \<le> t \<and> t < clock s' \<and> connect_attempt k (w t (url \<lparr>url = u\<rparr>)) = Inr ()"
      using ok s' by (auto intro: exI [of _ "clock s"])
    ultimately show ?thesis using r s' by auto
  qed
qed

lemma try_endpoints_verified:
  assumes "cache_verified w s"
    and "try_endpoints w k rc urls last_error s = (r, last_error', s')"
  shows "cache_verified w s' \<and> clock s \<le> clock s'
         \<and> (\<forall>h. r = Some h \<longrightarrow> web3_providers s' k = Some h
                \<and> (\<exists>t. clock s \<le> t \<and> t < clock s' \<and> connect_attempt k (w t (url h)) = Inr ()))"
  using assms
proof (induction urls arbitrary: last_error s)
  case Nil
  then show ?case by simp
next
  case (Cons u urls)
  obtain r1 l1 s1 where t: "try_attempts w k u rc [0..<rc] last_error s = (r1, l1, s1)"
    by (cases "try_attempts w k u rc [0..<rc] last_error s") auto
  note a = try_attempts_verified [OF Cons.prems(1) t]
  show ?case
  proof (cases r1)
    case None
    then have "try_endpoints w k rc urls l1 s1 = (r, last_error', s')"
      using Cons.prems(2) t by simp
    moreover from a have v1: "cache_verified w s1" and le1: "clock s \<le> clock s1" by simp_all
    ultimately have b: "cache_verified w s' \<and> clock s1 \<le> clock s'
         \<and> (\<forall>h. r = Some h \<longrightarrow> web3_providers s' k = Some h
                \<and> (\<exists>t. clock s1 \<le> t \<and> t < clock s' \<and> connect_attempt k (w t (url h)) = Inr ()))"
      using Cons.IH by blast
    show ?thesis
    proof (intro conjI allI impI)
      show "cache_verified w s'" using b by simp
      show "clock s \<le> clock s'" using b le1 by simp
    next
      fix h assume "r = Some h"
      with b obtain t where "web3_providers s' k = Some h" "clock s1 \<le> t" "t < clock s'"
        "connect_attempt k (w t (url h)) = Inr ()" by blast
      then show "web3_providers s' k = Some h"
        and "\<exists>t. clock s \<le> t \<and> t < clock s' \<and> connect_attempt k (w t (url h)) = Inr ()"
        using le1 by (auto intro: exI [of _ t])
    qed
  next
    case (Some h)
    then have "r = Some h" "s' = s1" using Cons.prems(2) t by simp_all
    then show ?thesis using a Some by simp
  qed
qed

lemma cached_provider_verified:
  assumes "cache_verified w s" and "cached_provider w k force_new s = (r, s1)"
  shows "cache_verified w s1 \<and> clock s \<le> clock s1
         \<and> (\<forall>h. r = Some h \<longrightarrow> \<not> force_new \<and> web3_providers s k = Some h
                \<and> web3_providers s1 k = Some h
                \<and> is_connected (w (clock s) (url h)) = Returns True)"
proof -
  have mono: "clock s \<le> clock s1" and sub: "\<And>k' h. web3_providers s1 k' = Some h \<Longrightarrow> web3_providers s k' = Some h"
    using assms(2)
    by (auto simp: cached_provider_def Let_def split: if_splits option.splits reply.splits bool.splits)
  have "cache_verified w s1" using assms(1) mono sub by (rule cache_verified_mono)
  moreover have "\<forall>h. r = Some h \<longrightarrow> \<not> force_new \<and> web3_providers s k = Some h
                \<and> web3_providers s1 k = Some h
                \<and> is_connected (w (clock s) (url h)) = Returns True"
    using assms(2)
    by (auto simp: cached_provider_def Let_def split: if_splits option.splits reply.splits bool.splits)
  ultimately show ?thesis using mono by blast
qed

lemma get_web3_provider_verified:
  assumes "cache_verified w s" and "get_web3_provider w k force_new s = (r, s')"
  shows "cache_verified w s' \<and> clock s \<le> clock s'
         \<and> (\<forall>h. r = Inr h \<longrightarrow> web3_providers s' k = Some h
                \<and> ((\<not> force_new \<and> web3_providers s k = Some h
                      \<and> is_connected (w (clock s) (url h)) = Returns True)
                    \<or> (\<exists>t. clock s \<le> t \<and> t < clock s' \<and> connect_attempt k (w t (url h)) = Inr ())))"
proof (cases "NETWORK_CONFIGS k")
  case None
  then show ?thesis using assms by (auto simp: get_web3_provider_def)
next
  case (Some config)
  obtain c s1 where cp: "cached_provider w k force_new s = (c, s1)"
    by (cases "cached_provider w k force_new s") auto
  note a = cached_provider_verified [OF assms(1) cp]
  show ?thesis
  proof (cases c)
    case (Some h)
    then have "r = Inr h" "s' = s1"
      using assms(2) \<open>NETWORK_CONFIGS k = Some config\<close> cp by (simp_all add: get_web3_provider_def)
    then show ?thesis using a Some by auto
  next
    case None
    obtain r2 l2 s2 where te: "try_endpoints w k (retry_count config) (rpc_urls config) None s1 = (r2, l2, s2)"
      by (cases "try_endpoints w k (retry_count config) (rpc_urls config) None s1") auto
    from a have v1: "cache_verified w s1" by simp
    note b = try_endpoints_verified [OF v1 te]
    have rs: "s' = s2" "r = (case r2 of Some h \<Rightarrow> Inr h | None \<Rightarrow> Inl (ConnectionError k l2))"
      using assms(2) \<open>NETWORK_CONFIGS k = Some config\<close> cp None te
      by (auto simp: get_web3_provider_def split: option.splits)
    show ?thesis
    proof (intro conjI allI impI)
      show "cache_verified w s'" using b rs by simp
      show "clock s \<le> clock s'" using a b rs by simp
    next
      fix h assume "r = Inr h"
      then have "r2 = Some h" using rs by (cases r2) auto
      with b obtain t where "web3_providers s2 k = Some h" "clock s1 \<le> t" "t < clock s2"
        "connect_attempt k (w t (url h)) = Inr ()" by blast
      moreover have "clock s \<le> clock s1" using a by simp
      ultimately show "web3_providers s' k = Some h" 
        and "(\<not> force_new \<and> web3_providers s k = Some h
                      \<and> is_connected (w (clock s) (url h)) = Returns True)
                    \<or> (\<exists>t. clock s \<le> t \<and> t < clock s' \<and> connect_attempt k (w t (url h)) = Inr ())"
        using rs by (auto intro: exI [of _ t])
    qed
  qed
qed

lemma reachable_verified: "reachable w s \<Longrightarrow> cache_verified w s"
proof (induction rule: reachable.induct)
  case reachable_initial
  then show ?case by (simp add: cache_verified_def initial_state_def)
next
  case (reachable_call s network_id force_new r s')
  then show ?case using get_web3_provider_verified by blast
qed

text \<open>
  Claim C1. In every state reachable from the empty cache, a successful
  \<open>get_web3_provider\<close> returns a provider that is cached under the requested chain
  id and whose endpoint reported exactly that chain id when the provider was verified.
  On the fresh-connection path the verification is part of this call; on the cache-hit
  path the call probes liveness only, and the provider is the one stored under the
  requested chain id, verified in the call that stored it. No provider verified for
  one chain is returned for another.
\<close>

theorem acquired_handle_chain:
  assumes "reachable w s"
    and "get_web3_provider w network_id force_new s = (Inr provider, s')"
  shows "(\<exists>t<clock s'. chain_id (w t (url provider)) = Returns network_id)
         \<and> web3_providers s' network_id = Some provider
         \<and> ((\<not> force_new \<and> web3_providers s network_id = Some provider
               \<and> is_connected (w (clock s) (url provider)) = Returns True)
             \<or> (\<exists>t. clock s \<le> t \<and> t < clock s'
                    \<and> chain_id (w t (url provider)) = Returns network_id))"
proof -
  have v: "cache_verified w s" using assms(1) by (rule reachable_verified)
  note g = get_web3_provider_verified [OF v assms(2)]
  then have cached: "web3_providers s' network_id = Some provider"
    and v': "cache_verified w s'" by simp_all
  then obtain t where "t < clock s'" "connect_attempt network_id (w t (url provider)) = Inr ()"
    unfolding cache_verified_def by blast
  then have first: "\<exists>t<clock s'. chain_id (w t (url provider)) = Returns network_id"
    using connect_attempt_chain by blast
  have "(\<not> force_new \<and> web3_providers s network_id = Some provider
               \<and> is_connected (w (clock s) (url provider)) = Returns True)
             \<or> (\<exists>t. clock s \<le> t \<and> t < clock s'
                    \<and> chain_id (w t (url provider)) = Returns network_id)"
    using g connect_attempt_chain by blast
  with first cached show ?thesis by blast
qed


lemma first_call:
  "get_web3_provider healthy_world 1 False initial_state
     = (Inr \<lparr>url = ''https://eth.drpc.org''\<rparr>, after_first_call)"
proof -
  have "fst (get_web3_provider healthy_world 1 False initial_state)
          = Inr \<lparr>url = ''https://eth.drpc.org''\<rparr>"
    by (simp add: get_web3_provider_def NETWORK_CONFIGS_def cached_provider_def
        initial_state_def connect_attempt_def add_network_middlewares_def health_check_def sync_check_def healthy_def
        healthy_world_def eval_nat_numeral)
  then show ?thesis unfolding after_first_call_def
    by (metis prod.collapse)
qed

lemma after_first_call_cache:
  "web3_providers after_first_call 1 = Some \<lparr>url = ''https://eth.drpc.org''\<rparr>"
  unfolding after_first_call_def
  by (simp add: get_web3_provider_def NETWORK_CONFIGS_def cached_provider_def
      initial_state_def connect_attempt_def add_network_middlewares_def health_check_def sync_check_def healthy_def
      healthy_world_def eval_nat_numeral)

lemma second_call:
  "fst (get_web3_provider healthy_world 1 False after_first_call)
     = Inr \<lparr>url = ''https://eth.drpc.org''\<rparr>"
  by (simp add: get_web3_provider_def NETWORK_CONFIGS_def cached_provider_def
      after_first_call_cache healthy_def healthy_world_def Let_def)

theorem acquired_handle_chain_witness:
  "reachable healthy_world after_first_call
   \<and> get_web3_provider healthy_world 1 False after_first_call
       = (Inr \<lparr>url = ''https://eth.drpc.org''\<rparr>,
          snd (get_web3_provider healthy_world 1 False after_first_call))
   \<and> (\<exists>t<clock (snd (get_web3_provider healthy_world 1 False after_first_call)).
         chain_id (healthy_world t ''https://eth.drpc.org'') = Returns 1)
   \<and> web3_providers (snd (get_web3_provider healthy_world 1 False after_first_call)) 1
       = Some \<lparr>url = ''https://eth.drpc.org''\<rparr>"
proof -
  have r: "reachable healthy_world after_first_call"
    using reachable_initial first_call by (rule reachable_call)
  have c: "get_web3_provider healthy_world 1 False after_first_call
       = (Inr \<lparr>url = ''https://eth.drpc.org''\<rparr>,
          snd (get_web3_provider healthy_world 1 False after_first_call))"
    using second_call by (metis prod.collapse)
  from acquired_handle_chain [OF r c] r c show ?thesis by simp
qed

end
